theory Spec2Isabelle
  imports Complex_Main
begin

section \<open>Shared vocabulary: errors, remote calls, documents\<close>

text \<open>
  The services are thin clients of a remote document store. Every \<open>await\<close> of a store
  call either resolves or rejects. A rejection by the store is the error
  \<open>RemoteFailure\<close>; an \<open>Error s\<close> is the source's own \<open>throw new Error(s)\<close>. An async
  function that rejects returns \<open>Inl\<close>, one that resolves returns \<open>Inr\<close>.
\<close>

datatype error = Error string | RemoteFailure

type_synonym 'a result = "error + 'a"

text \<open>
  The remote calls the services make, by collection name and document id. A value of
  type \<open>faults\<close> says which of them the store rejects.
\<close>

datatype remote_op =
    GetDoc string string
  | AddDoc string
  | UpdateDoc string string
  | DeleteDoc string string
  | GetDocs string
  | BatchCommit

type_synonym faults = "remote_op \<Rightarrow> bool"

definition no_faults :: faults where
  "no_faults = (\<lambda>_. False)"

datatype ContentType = Post | Story | Moment

text \<open>
  Comment text is a JavaScript string: a list of UTF-16 code units. Identifiers are
  only compared for equality, so they stay plain strings.
\<close>

type_synonym jsstring = "nat list"

record CommentData =
  comment_text :: jsstring
  userId :: string
  userDisplayName :: string
  userPhotoURL :: "string option"

text \<open>
  A stored comment document. Fields the source reads with a fallback
  (\<open>likes || []\<close>, \<open>likesCount || 0\<close>) or declares optional are options.
\<close>

record CommentDoc = CommentData +
  contentId :: string
  contentType :: ContentType
  timestamp :: string
  likes :: "string list option"
  likesCount :: "int option"
  replies :: "unit list"
  edited :: "bool option"
  editedAt :: "string option"

record Comment = CommentDoc +
  comment_id :: string

record ContentDoc =
  commentsCount :: "int option"

record store =
  comments :: "string \<rightharpoonup> CommentDoc"
  posts :: "string \<rightharpoonup> ContentDoc"
  stories :: "string \<rightharpoonup> ContentDoc"
  moments :: "string \<rightharpoonup> ContentDoc"

section \<open>CommentService\<close>

definition COMMENTS_COLLECTION :: string where
  "COMMENTS_COLLECTION = ''comments''"

text \<open>The \<open>switch\<close> of \<open>updateCommentCount\<close>; its \<open>default\<close> branch needs a fourth content type.\<close>

fun collectionName :: "ContentType \<Rightarrow> string" where
  "collectionName Post = ''posts''"
| "collectionName Story = ''stories''"
| "collectionName Moment = ''moments''"

fun contentDocs :: "store \<Rightarrow> ContentType \<Rightarrow> (string \<rightharpoonup> ContentDoc)" where
  "contentDocs s Post = posts s"
| "contentDocs s Story = stories s"
| "contentDocs s Moment = moments s"

fun putContentDoc :: "store \<Rightarrow> ContentType \<Rightarrow> string \<Rightarrow> ContentDoc \<Rightarrow> store" where
  "putContentDoc s Post k d = s\<lparr>posts := (posts s)(k \<mapsto> d)\<rparr>"
| "putContentDoc s Story k d = s\<lparr>stories := (stories s)(k \<mapsto> d)\<rparr>"
| "putContentDoc s Moment k d = s\<lparr>moments := (moments s)(k \<mapsto> d)\<rparr>"

text \<open>\<open>x || 0\<close> on a count that may be missing.\<close>

definition orZero :: "int option \<Rightarrow> int" where
  "orZero x = (case x of None \<Rightarrow> 0 | Some n \<Rightarrow> n)"

text \<open>
  The body of the \<open>try\<close> block of \<open>updateCommentCount\<close>: read the parent document,
  and if it exists write \<open>Math.max(0, currentCount + delta)\<close>.
\<close>

definition updateCommentCount_try ::
  "faults \<Rightarrow> store \<Rightarrow> string \<Rightarrow> ContentType \<Rightarrow> int \<Rightarrow> unit result \<times> store" where
  "updateCommentCount_try fault s cId cType delta =
     (if fault (GetDoc (collectionName cType) cId) then (Inl RemoteFailure, s)
      else case contentDocs s cType cId of
        None \<Rightarrow> (Inr (), s)
      | Some d \<Rightarrow>
          (let currentCount = orZero (commentsCount d);
               newCount = max 0 (currentCount + delta)
           in if fault (UpdateDoc (collectionName cType) cId) then (Inl RemoteFailure, s)
              else (Inr (), putContentDoc s cType cId (d\<lparr>commentsCount := Some newCount\<rparr>))))"

text \<open>The \<open>catch\<close> of \<open>updateCommentCount\<close> logs and does not rethrow.\<close>

definition updateCommentCount :: "faults \<Rightarrow> store \<Rightarrow> string \<Rightarrow> ContentType \<Rightarrow> int \<Rightarrow> store" where
  "updateCommentCount fault s cId cType delta =
     (case updateCommentCount_try fault s cId cType delta of
        (Inl e, s') \<Rightarrow> s'
      | (Inr u, s') \<Rightarrow> s')"

text \<open>
  \<open>addComment\<close>. The store chooses the new document's id (\<open>newId\<close>) and the clock gives
  the timestamp (\<open>nowIso\<close>, the value of \<open>new Date().toISOString()\<close>).
\<close>

definition newCommentDoc :: "string \<Rightarrow> string \<Rightarrow> ContentType \<Rightarrow> CommentData \<Rightarrow> CommentDoc" where
  "newCommentDoc nowIso cId cType commentData =
     \<lparr> comment_text = comment_text commentData,
       userId = userId commentData,
       userDisplayName = userDisplayName commentData,
       userPhotoURL = userPhotoURL commentData,
       contentId = cId,
       contentType = cType,
       timestamp = nowIso,
       likes = Some [],
       likesCount = Some 0,
       replies = [],
       edited = Some False,
       editedAt = None \<rparr>"

definition withId :: "string \<Rightarrow> CommentDoc \<Rightarrow> Comment" where
  "withId i d =
     \<lparr> comment_text = comment_text d,
       userId = userId d,
       userDisplayName = userDisplayName d,
       userPhotoURL = userPhotoURL d,
       contentId = contentId d,
       contentType = contentType d,
       timestamp = timestamp d,
       likes = likes d,
       likesCount = likesCount d,
       replies = replies d,
       edited = edited d,
       editedAt = editedAt d,
       comment_id = i \<rparr>"

definition addComment ::
  "faults \<Rightarrow> string \<Rightarrow> string \<Rightarrow> store \<Rightarrow> string \<Rightarrow> ContentType \<Rightarrow> CommentData
     \<Rightarrow> Comment result \<times> store" where
  "addComment fault newId nowIso s cId cType commentData =
     (let comment = newCommentDoc nowIso cId cType commentData
      in if fault (AddDoc COMMENTS_COLLECTION) then (Inl RemoteFailure, s)
         else (let s1 = s\<lparr>comments := (comments s)(newId \<mapsto> comment)\<rparr>;
                   s2 = updateCommentCount fault s1 cId cType 1
               in (Inr (withId newId comment), s2)))"

definition deleteComment ::
  "faults \<Rightarrow> store \<Rightarrow> string \<Rightarrow> string \<Rightarrow> ContentType \<Rightarrow> string \<Rightarrow> unit result \<times> store" where
  "deleteComment fault s commentId cId cType uid =
     (if fault (GetDoc COMMENTS_COLLECTION commentId) then (Inl RemoteFailure, s)
      else case comments s commentId of
        None \<Rightarrow> (Inl (Error ''Comment not found''), s)
      | Some commentData \<Rightarrow>
          if userId commentData \<noteq> uid
          then (Inl (Error ''Unauthorized to delete this comment''), s)
          else if fault (DeleteDoc COMMENTS_COLLECTION commentId) then (Inl RemoteFailure, s)
          else (let s1 = s\<lparr>comments := (comments s)(commentId := None)\<rparr>;
                    s2 = updateCommentCount fault s1 cId cType (- 1)
                in (Inr (), s2)))"

text \<open>
  \<open>String.prototype.trim\<close>: the code units ECMAScript counts as white space or line
  terminator are dropped from both ends.
\<close>

definition isWhiteSpace :: "nat \<Rightarrow> bool" where
  "isWhiteSpace c \<longleftrightarrow>
     c \<in> {9, 10, 11, 12, 13, 32, 160, 5760, 8232, 8233, 8239, 8287, 12288, 65279}
     \<or> (8192 \<le> c \<and> c \<le> 8202)"

definition trim :: "jsstring \<Rightarrow> jsstring" where
  "trim t = rev (dropWhile isWhiteSpace (rev (dropWhile isWhiteSpace t)))"

definition editComment ::
  "faults \<Rightarrow> string \<Rightarrow> store \<Rightarrow> string \<Rightarrow> jsstring \<Rightarrow> string \<Rightarrow> unit result \<times> store" where
  "editComment fault nowIso s commentId newText uid =
     (if fault (GetDoc COMMENTS_COLLECTION commentId) then (Inl RemoteFailure, s)
      else case comments s commentId of
        None \<Rightarrow> (Inl (Error ''Comment not found''), s)
      | Some commentData \<Rightarrow>
          if userId commentData \<noteq> uid
          then (Inl (Error ''Unauthorized to edit this comment''), s)
          else if fault (UpdateDoc COMMENTS_COLLECTION commentId) then (Inl RemoteFailure, s)
          else (Inr (), s\<lparr>comments := (comments s)(commentId \<mapsto>
                  commentData\<lparr>comment_text := trim newText,
                                edited := Some True,
                                editedAt := Some nowIso\<rparr>)\<rparr>))"

text \<open>
  The store's field transforms: \<open>arrayUnion\<close> appends the element unless the array
  holds it, \<open>arrayRemove\<close> removes every occurrence; on a missing field they start
  from the empty array.
\<close>

definition arrayUnion :: "string \<Rightarrow> string list option \<Rightarrow> string list option" where
  "arrayUnion u xs =
     (case xs of None \<Rightarrow> Some [u] | Some l \<Rightarrow> Some (if u \<in> set l then l else l @ [u]))"

definition arrayRemove :: "string \<Rightarrow> string list option \<Rightarrow> string list option" where
  "arrayRemove u xs =
     (case xs of None \<Rightarrow> Some [] | Some l \<Rightarrow> Some (filter (\<lambda>x. x \<noteq> u) l))"

text \<open>\<open>x || []\<close> on a list that may be missing.\<close>

definition orEmpty :: "string list option \<Rightarrow> string list" where
  "orEmpty x = (case x of None \<Rightarrow> [] | Some l \<Rightarrow> l)"

definition toggleCommentLike ::
  "faults \<Rightarrow> store \<Rightarrow> string \<Rightarrow> string \<Rightarrow> unit result \<times> store" where
  "toggleCommentLike fault s commentId uid =
     (if fault (GetDoc COMMENTS_COLLECTION commentId) then (Inl RemoteFailure, s)
      else case comments s commentId of
        None \<Rightarrow> (Inl (Error ''Comment not found''), s)
      | Some commentData \<Rightarrow>
          (let likesNow = orEmpty (likes commentData);
               hasLiked = (uid \<in> set likesNow)
           in if hasLiked
              then (if fault (UpdateDoc COMMENTS_COLLECTION commentId)
                    then (Inl RemoteFailure, s)
                    else (Inr (), s\<lparr>comments := (comments s)(commentId \<mapsto>
                            commentData\<lparr>likes := arrayRemove uid (likes commentData),
                                          likesCount :=
                                            Some (max 0 (orZero (likesCount commentData) - 1))\<rparr>)\<rparr>))
              else (if fault (UpdateDoc COMMENTS_COLLECTION commentId)
                    then (Inl RemoteFailure, s)
                    else (Inr (), s\<lparr>comments := (comments s)(commentId \<mapsto>
                            commentData\<lparr>likes := arrayUnion uid (likes commentData),
                                          likesCount :=
                                            Some (orZero (likesCount commentData) + 1)\<rparr>)\<rparr>))))"

text \<open>
  A sequence of calls of \<open>toggleCommentLike\<close> on one comment, one after the other, by
  the users in the list.
\<close>

fun toggleCommentLike_seq :: "faults \<Rightarrow> store \<Rightarrow> string \<Rightarrow> string list \<Rightarrow> store" where
  "toggleCommentLike_seq fault s commentId [] = s"
| "toggleCommentLike_seq fault s commentId (u # us) =
     toggleCommentLike_seq fault (snd (toggleCommentLike fault s commentId u)) commentId us"

text \<open>
  \<open>getCommentsByContentId\<close>. The store evaluates the query (two equality filters,
  ordered by timestamp); \<open>snapshot\<close> is the list of documents it answers with.
\<close>

definition getCommentsByContentId ::
  "faults \<Rightarrow> (string \<times> CommentDoc) list \<Rightarrow> string \<Rightarrow> ContentType \<Rightarrow> Comment list result" where
  "getCommentsByContentId fault snapshot cId cType =
     (if fault (GetDocs COMMENTS_COLLECTION) then Inl RemoteFailure
      else Inr (map (\<lambda>(i, d). withId i d) snapshot))"

section \<open>Dates\<close>






















section \<open>EventsService\<close>


datatype EventState = Open | SubmissionsOpen | SubmissionsClosed | ResultsDeclared

record LeaderboardEntry =
  lb_rank :: int
  lb_userId :: string
  lb_userName :: string
  lb_userAvatar :: "string option"
  lb_submissionId :: string
  lb_score :: "int option"

record WinnerEntry =
  w_submissionId :: string
  w_userId :: string
  w_rank :: int

record EventSubmissionDoc =
  sub_userName :: string
  sub_userAvatar :: "string option"
  sub_rank :: "int option"

text \<open>
  The fields of an event that the service reads or writes. \<open>date\<close> is the time value
  of \<open>new Date(event.date)\<close>; \<open>startTime\<close> is the pair of numbers
  \<open>event.startTime.split(':').map(Number)\<close> of an "H:M" string; \<open>duration\<close> is in
  hours, an exact fraction, and the arithmetic on it is exact (as the source's doubles
  are on halves and quarters of an hour).
\<close>

record EventDoc =
  date :: "int option"
  startTime :: "(int \<times> int) option"
  duration :: "rat option"
  leaderboard :: "LeaderboardEntry list option"
  eventState :: "EventState option"
  winnersAnnouncedAt :: "int option"
  announcedBy :: "string option"
  updatedAt :: "int option"

record Event = EventDoc +
  event_id :: string

record eventsStore =
  events :: "string \<rightharpoonup> EventDoc"
  eventSubmissions :: "string \<rightharpoonup> EventSubmissionDoc"

text \<open>\<open>{ id: snap.id, ...snap.data() }\<close>.\<close>

definition eventOf :: "string \<Rightarrow> EventDoc \<Rightarrow> Event" where
  "eventOf i d =
     \<lparr> date = date d, startTime = startTime d, duration = duration d,
       leaderboard = leaderboard d, eventState = eventState d,
       winnersAnnouncedAt = winnersAnnouncedAt d, announcedBy = announcedBy d,
       updatedAt = updatedAt d, event_id = i \<rparr>"

subsection \<open>getEventStatus\<close>





subsection \<open>The window of an event\<close>





subsection \<open>getAllEvents\<close>

definition EVENTS :: string where
  "EVENTS = ''events''"

text \<open>
  The comparator of \<open>events.sort\<close>, \<open>new Date(b.date).getTime() - new Date(a.date).getTime()\<close>;
  a NaN result counts as 0. The sort is stable.
\<close>

definition compareByDate :: "Event \<Rightarrow> Event \<Rightarrow> int" where
  "compareByDate a b =
     (case (date b, date a) of (Some tb, Some ta) \<Rightarrow> tb - ta | _ \<Rightarrow> 0)"

fun insertEvent :: "Event \<Rightarrow> Event list \<Rightarrow> Event list" where
  "insertEvent x [] = [x]"
| "insertEvent x (y # ys) =
     (if compareByDate x y > 0 then y # insertEvent x ys else x # y # ys)"

definition sortEvents :: "Event list \<Rightarrow> Event list" where
  "sortEvents xs = foldr insertEvent xs []"

text \<open>
  \<open>snapshot\<close> is the list of active event documents the store answers the query with.
\<close>

definition getAllEvents :: "faults \<Rightarrow> (string \<times> EventDoc) list \<Rightarrow> Event list result" where
  "getAllEvents fault snapshot =
     (if fault (GetDocs EVENTS) then Inr []
      else Inr (sortEvents (map (\<lambda>(i, d). eventOf i d) snapshot)))"

subsection \<open>Batched writes\<close>

text \<open>
  The store's contract for \<open>writeBatch\<close>: a batch is a list of field updates;
  \<open>commit\<close> applies them in order and all together. It rejects, and applies none, when
  a document to update does not exist or the call itself fails.
\<close>

datatype batch_write =
    EventUpdate string "EventDoc \<Rightarrow> EventDoc"
  | SubmissionUpdate string "EventSubmissionDoc \<Rightarrow> EventSubmissionDoc"

fun applyWrite :: "batch_write \<Rightarrow> eventsStore \<Rightarrow> eventsStore option" where
  "applyWrite (EventUpdate k f) s =
     (case events s k of
        None \<Rightarrow> None
      | Some d \<Rightarrow> Some (s\<lparr>events := (events s)(k \<mapsto> f d)\<rparr>))"
| "applyWrite (SubmissionUpdate k f) s =
     (case eventSubmissions s k of
        None \<Rightarrow> None
      | Some d \<Rightarrow> Some (s\<lparr>eventSubmissions := (eventSubmissions s)(k \<mapsto> f d)\<rparr>))"

fun applyWrites :: "batch_write list \<Rightarrow> eventsStore \<Rightarrow> eventsStore option" where
  "applyWrites [] s = Some s"
| "applyWrites (w # ws) s =
     (case applyWrite w s of None \<Rightarrow> None | Some s' \<Rightarrow> applyWrites ws s')"

definition commit :: "faults \<Rightarrow> batch_write list \<Rightarrow> eventsStore \<Rightarrow> unit result \<times> eventsStore" where
  "commit fault batch s =
     (if fault BatchCommit then (Inl RemoteFailure, s)
      else case applyWrites batch s of
        None \<Rightarrow> (Inl RemoteFailure, s)
      | Some s' \<Rightarrow> (Inr (), s'))"

subsection \<open>declareWinners and updateLeaderboard\<close>

text \<open>
  The first loop of \<open>declareWinners\<close>: a winner whose submission cannot be read or
  does not exist gets no leaderboard entry.
\<close>

fun fetchLeaderboard :: "faults \<Rightarrow> eventsStore \<Rightarrow> WinnerEntry list \<Rightarrow> LeaderboardEntry list" where
  "fetchLeaderboard fault s [] = []"
| "fetchLeaderboard fault s (winner # rest) =
     (if fault (GetDoc ''eventSubmissions'' (w_submissionId winner))
      then fetchLeaderboard fault s rest
      else case eventSubmissions s (w_submissionId winner) of
        None \<Rightarrow> fetchLeaderboard fault s rest
      | Some submission \<Rightarrow>
          \<lparr> lb_rank = w_rank winner,
            lb_userId = w_userId winner,
            lb_userName = sub_userName submission,
            lb_userAvatar = sub_userAvatar submission,
            lb_submissionId = w_submissionId winner,
            lb_score = Some 0 \<rparr> # fetchLeaderboard fault s rest)"

definition rankWrite :: "string \<Rightarrow> int \<Rightarrow> batch_write" where
  "rankWrite submissionId r = SubmissionUpdate submissionId (\<lambda>d. d\<lparr>sub_rank := Some r\<rparr>)"

text \<open>
  \<open>declareWinners\<close>. \<open>tsNow\<close> is \<open>Timestamp.now()\<close>, \<open>dateNow\<close> the later \<open>new Date()\<close>.
  Every path through the outer \<open>try\<close>/\<open>catch\<close> resolves: with the updated event, or
  with \<open>null\<close> (\<open>None\<close>).
\<close>

definition declareWinners ::
  "faults \<Rightarrow> int \<Rightarrow> int \<Rightarrow> eventsStore \<Rightarrow> string \<Rightarrow> WinnerEntry list \<Rightarrow> string
     \<Rightarrow> Event option result \<times> eventsStore" where
  "declareWinners fault tsNow dateNow s eventId winners currentUserId =
     (if fault (GetDoc EVENTS eventId) then (Inr None, s)
      else case events s eventId of
        None \<Rightarrow> (Inr None, s)
      | Some d \<Rightarrow>
          (let event = eventOf eventId d;
               lb = fetchLeaderboard fault s winners;
               batch = EventUpdate eventId
                         (\<lambda>x. x\<lparr>leaderboard := Some lb,
                                 eventState := Some ResultsDeclared,
                                 winnersAnnouncedAt := Some tsNow,
                                 announcedBy := Some currentUserId\<rparr>)
                       # map (\<lambda>winner. rankWrite (w_submissionId winner) (w_rank winner)) winners
           in case commit fault batch s of
                (Inl e, s') \<Rightarrow> (Inr None, s')
              | (Inr u, s') \<Rightarrow>
                  (Inr (Some (event\<lparr>leaderboard := Some lb,
                                     eventState := Some ResultsDeclared,
                                     winnersAnnouncedAt := Some dateNow,
                                     announcedBy := Some currentUserId\<rparr>)), s')))"

definition updateLeaderboard ::
  "faults \<Rightarrow> int \<Rightarrow> int \<Rightarrow> eventsStore \<Rightarrow> string \<Rightarrow> LeaderboardEntry list \<Rightarrow> string
     \<Rightarrow> Event option result \<times> eventsStore" where
  "updateLeaderboard fault tsNow dateNow s eventId lb currentUserId =
     (if fault (GetDoc EVENTS eventId) then (Inr None, s)
      else case events s eventId of
        None \<Rightarrow> (Inr None, s)
      | Some d \<Rightarrow>
          (let event = eventOf eventId d;
               batch = EventUpdate eventId (\<lambda>x. x\<lparr>leaderboard := Some lb, updatedAt := Some tsNow\<rparr>)
                       # map (\<lambda>entry. rankWrite (lb_submissionId entry) (lb_rank entry)) lb
           in case commit fault batch s of
                (Inl e, s') \<Rightarrow> (Inr None, s')
              | (Inr u, s') \<Rightarrow>
                  (Inr (Some (event\<lparr>leaderboard := Some lb, updatedAt := Some dateNow\<rparr>)), s')))"

section \<open>Example data\<close>

definition emptyStore :: store where
  "emptyStore = \<lparr> comments = Map.empty, posts = Map.empty, stories = Map.empty,
                  moments = Map.empty \<rparr>"

definition aliceData :: CommentData where
  "aliceData = \<lparr> comment_text = [104, 105], userId = ''alice'',
                 userDisplayName = ''Alice'', userPhotoURL = None \<rparr>"

definition aliceComment :: CommentDoc where
  "aliceComment = newCommentDoc ''2025-01-15T10:00:00.000Z'' ''p1'' Post aliceData"

definition storeA :: store where
  "storeA = emptyStore\<lparr> comments := [''c1'' \<mapsto> aliceComment],
                        posts := [''p1'' \<mapsto> \<lparr>commentsCount = Some 0\<rparr>] \<rparr>"

definition failCounterWrite :: faults where
  "failCounterWrite = (\<lambda>op. op = UpdateDoc ''posts'' ''p1'')"

definition eveningEvent :: EventDoc where
  "eveningEvent = \<lparr> date = Some 0, startTime = Some (18, 0), duration = None,
                    leaderboard = None, eventState = None, winnersAnnouncedAt = None,
                    announcedBy = None, updatedAt = None \<rparr>"





definition storeE :: eventsStore where
  "storeE = \<lparr> events = [''e1'' \<mapsto> eveningEvent],
               eventSubmissions =
                 [''s1'' \<mapsto> \<lparr>sub_userName = ''Ann'', sub_userAvatar = None, sub_rank = None\<rparr>,
                  ''s2'' \<mapsto> \<lparr>sub_userName = ''Ben'', sub_userAvatar = None, sub_rank = None\<rparr>] \<rparr>"

definition winnersAB :: "WinnerEntry list" where
  "winnersAB = [\<lparr>w_submissionId = ''s1'', w_userId = ''ann'', w_rank = 1\<rparr>,
                \<lparr>w_submissionId = ''s2'', w_userId = ''ben'', w_rank = 2\<rparr>]"

definition winnersMissing :: "WinnerEntry list" where
  "winnersMissing = [\<lparr>w_submissionId = ''s1'', w_userId = ''ann'', w_rank = 1\<rparr>,
                     \<lparr>w_submissionId = ''s9'', w_userId = ''zed'', w_rank = 2\<rparr>]"

definition failCommit :: faults where
  "failCommit = (\<lambda>op. op = BatchCommit)"

definition failQueries :: faults where
  "failQueries = (\<lambda>op. op = GetDocs ''events'' \<or> op = GetDocs ''comments'')"

definition failEverything :: faults where
  "failEverything = (\<lambda>op. True)"

section \<open>The denormalized comment count\<close>




section \<open>Ownership check of deleteComment\<close>

text \<open>
  C3. Deleting a stored comment whose author is not the requester fails, and the store
  is left as it was: the comment document is still there and no parent count has
  changed. The error is \<open>Error ''Unauthorized to delete this comment''\<close> (the spec's
  PermissionDenied) whenever the read of the comment document itself went through.
\<close>

theorem deleteComment_not_owner:
  assumes "comments s commentId = Some c" and "userId c \<noteq> uid"
  shows "snd (deleteComment fault s commentId cId cType uid) = s
       \<and> (\<exists>e. fst (deleteComment fault s commentId cId cType uid) = Inl e)
       \<and> (\<not> fault (GetDoc COMMENTS_COLLECTION commentId) \<longrightarrow>
            fst (deleteComment fault s commentId cId cType uid)
              = Inl (Error ''Unauthorized to delete this comment''))"
  using assms by (simp add: deleteComment_def)

theorem deleteComment_not_owner_witness:
  "deleteComment no_faults storeA ''c1'' ''p1'' Post ''bob''
     = (Inl (Error ''Unauthorized to delete this comment''), storeA)"
proof -
  have c: "comments storeA ''c1'' = Some aliceComment"
    by (simp add: storeA_def)
  have u: "userId aliceComment \<noteq> ''bob''"
    by (simp add: aliceComment_def newCommentDoc_def aliceData_def)
  show ?thesis
    using deleteComment_not_owner [OF c u, of no_faults "''p1''" Post]
    by (simp add: no_faults_def prod_eq_iff)
qed

section \<open>addComment\<close>

text \<open>
  C7. When the store accepts the new document, \<open>addComment\<close> returns a comment with an
  empty \<open>likes\<close> array, \<open>likesCount\<close> 0 and \<open>edited\<close> false that carries the given
  content id, content type, text and author fields and the id of the new document,
  and that document is in the \<open>comments\<close> collection afterwards.
\<close>

theorem addComment_returns_fresh_comment:
  assumes "\<not> fault (AddDoc COMMENTS_COLLECTION)"
  shows "\<exists>c. fst (addComment fault newId nowIso s cId cType commentData) = Inr c
           \<and> likes c = Some [] \<and> likesCount c = Some 0 \<and> edited c = Some False
           \<and> contentId c = cId \<and> contentType c = cType
           \<and> comment_text c = comment_text commentData
           \<and> userId c = userId commentData
           \<and> userDisplayName c = userDisplayName commentData
           \<and> userPhotoURL c = userPhotoURL commentData
           \<and> comment_id c = newId
           \<and> comments (snd (addComment fault newId nowIso s cId cType commentData)) newId
               = Some (newCommentDoc nowIso cId cType commentData)"
proof -
  have "comments (updateCommentCount fault s1 cId cType 1) newId = comments s1 newId" for s1
    by (cases cType)
       (simp_all add: updateCommentCount_def updateCommentCount_try_def Let_def
          split: option.splits)
  then show ?thesis
    using assms by (simp add: addComment_def Let_def withId_def newCommentDoc_def)
qed

theorem addComment_returns_fresh_comment_witness:
  "\<exists>c. fst (addComment no_faults ''c2'' ''2025-01-15T11:00:00.000Z'' storeA ''p1'' Post aliceData)
          = Inr c
       \<and> likes c = Some [] \<and> likesCount c = Some 0 \<and> edited c = Some False
       \<and> comment_text c = [104, 105] \<and> userId c = ''alice'' \<and> comment_id c = ''c2''"
  using addComment_returns_fresh_comment
    [where fault = no_faults and newId = "''c2''" and nowIso = "''2025-01-15T11:00:00.000Z''"
       and s = storeA and cId = "''p1''" and cType = Post and commentData = aliceData]
  by (auto simp: aliceData_def no_faults_def)

section \<open>Best-effort counter update\<close>

lemma updateCommentCount_try_fails_unchanged:
  "fst (updateCommentCount_try fault s cId cType delta) = Inl e
     \<Longrightarrow> snd (updateCommentCount_try fault s cId cType delta) = s"
  by (auto simp: updateCommentCount_try_def Let_def split: option.splits if_splits)

lemma updateCommentCount_fails_unchanged:
  "fst (updateCommentCount_try fault s cId cType delta) = Inl e
     \<Longrightarrow> updateCommentCount fault s cId cType delta = s"
  using updateCommentCount_try_fails_unchanged [of fault s cId cType delta e]
  by (cases "updateCommentCount_try fault s cId cType delta")
     (simp add: updateCommentCount_def)

lemma updateCommentCount_keeps_comments:
  "comments (updateCommentCount fault s cId cType delta) = comments s"
  by (cases cType)
     (simp_all add: updateCommentCount_def updateCommentCount_try_def Let_def
        split: option.splits)

text \<open>
  C6. The counter update after the primary write of \<open>addComment\<close> and \<open>deleteComment\<close>
  is best-effort. Once the primary write went through, the call returns successfully
  and the comment is created (or deleted), whatever the counter update does; and when
  the body of \<open>updateCommentCount\<close> fails with an error \<open>e\<close>, that error is not
  passed on and the store is exactly the store after the primary write.
\<close>

theorem counter_update_is_best_effort:
  "(\<not> fault (AddDoc COMMENTS_COLLECTION) \<longrightarrow>
      fst (addComment fault newId nowIso s cId cType commentData)
        = Inr (withId newId (newCommentDoc nowIso cId cType commentData))
      \<and> comments (snd (addComment fault newId nowIso s cId cType commentData)) newId
        = Some (newCommentDoc nowIso cId cType commentData)
      \<and> (\<forall>e. fst (updateCommentCount_try fault
                  (s\<lparr>comments := (comments s)(newId \<mapsto> newCommentDoc nowIso cId cType commentData)\<rparr>)
                  cId cType 1) = Inl e
            \<longrightarrow> snd (addComment fault newId nowIso s cId cType commentData)
                = s\<lparr>comments := (comments s)(newId \<mapsto> newCommentDoc nowIso cId cType commentData)\<rparr>))
   \<and> (\<forall>c. comments s commentId = Some c \<and> userId c = uid
          \<and> \<not> fault (GetDoc COMMENTS_COLLECTION commentId)
          \<and> \<not> fault (DeleteDoc COMMENTS_COLLECTION commentId) \<longrightarrow>
      fst (deleteComment fault s commentId cId cType uid) = Inr ()
      \<and> comments (snd (deleteComment fault s commentId cId cType uid)) commentId = None
      \<and> (\<forall>e. fst (updateCommentCount_try fault
                  (s\<lparr>comments := (comments s)(commentId := None)\<rparr>) cId cType (- 1)) = Inl e
            \<longrightarrow> snd (deleteComment fault s commentId cId cType uid)
                = s\<lparr>comments := (comments s)(commentId := None)\<rparr>))"
  by (auto simp: addComment_def deleteComment_def Let_def updateCommentCount_keeps_comments
        updateCommentCount_fails_unchanged)

theorem counter_update_is_best_effort_witness:
  "fst (updateCommentCount_try failCounterWrite
          (storeA\<lparr>comments := (comments storeA)(''c2'' \<mapsto>
              newCommentDoc ''2025-01-15T11:00:00.000Z'' ''p1'' Post aliceData)\<rparr>) ''p1'' Post 1)
     = Inl RemoteFailure
   \<and> addComment failCounterWrite ''c2'' ''2025-01-15T11:00:00.000Z'' storeA ''p1'' Post aliceData
     = (Inr (withId ''c2'' (newCommentDoc ''2025-01-15T11:00:00.000Z'' ''p1'' Post aliceData)),
        storeA\<lparr>comments := (comments storeA)(''c2'' \<mapsto>
              newCommentDoc ''2025-01-15T11:00:00.000Z'' ''p1'' Post aliceData)\<rparr>)
   \<and> fst (updateCommentCount_try failCounterWrite
          (storeA\<lparr>comments := (comments storeA)(''c1'' := None)\<rparr>) ''p1'' Post (- 1))
     = Inl RemoteFailure
   \<and> deleteComment failCounterWrite storeA ''c1'' ''p1'' Post ''alice''
     = (Inr (), storeA\<lparr>comments := (comments storeA)(''c1'' := None)\<rparr>)"
proof -
  have f1: "fst (updateCommentCount_try failCounterWrite
          (storeA\<lparr>comments := (comments storeA)(''c2'' \<mapsto>
              newCommentDoc ''2025-01-15T11:00:00.000Z'' ''p1'' Post aliceData)\<rparr>) ''p1'' Post 1)
     = Inl RemoteFailure"
    by (simp add: updateCommentCount_try_def failCounterWrite_def storeA_def emptyStore_def)
  have f2: "fst (updateCommentCount_try failCounterWrite
          (storeA\<lparr>comments := (comments storeA)(''c1'' := None)\<rparr>) ''p1'' Post (- 1))
     = Inl RemoteFailure"
    by (simp add: updateCommentCount_try_def failCounterWrite_def storeA_def emptyStore_def)
  have p1: "\<not> failCounterWrite (AddDoc COMMENTS_COLLECTION)"
    by (simp add: failCounterWrite_def)
  have p2: "comments storeA ''c1'' = Some aliceComment \<and> userId aliceComment = ''alice''
      \<and> \<not> failCounterWrite (GetDoc COMMENTS_COLLECTION ''c1'')
      \<and> \<not> failCounterWrite (DeleteDoc COMMENTS_COLLECTION ''c1'')"
    by (simp add: failCounterWrite_def storeA_def aliceComment_def newCommentDoc_def
          aliceData_def)
  show ?thesis
    using f1 f2 p1 p2
      counter_update_is_best_effort
        [where fault = failCounterWrite and newId = "''c2''"
           and nowIso = "''2025-01-15T11:00:00.000Z''" and s = storeA and cId = "''p1''"
           and cType = Post and commentData = aliceData and commentId = "''c1''"
           and uid = "''alice''"]
    by (simp add: prod_eq_iff)
qed

section \<open>toggleCommentLike\<close>

lemma toggleCommentLike_member:
  assumes "comments s commentId = Some c"
    and "\<not> fault (GetDoc COMMENTS_COLLECTION commentId)"
    and "\<not> fault (UpdateDoc COMMENTS_COLLECTION commentId)"
  shows "\<exists>c'. comments (snd (toggleCommentLike fault s commentId v)) commentId = Some c'
           \<and> (uid \<in> set (orEmpty (likes c'))
                \<longleftrightarrow> (if v = uid then uid \<notin> set (orEmpty (likes c))
                     else uid \<in> set (orEmpty (likes c))))"
  using assms
  by (auto simp: toggleCommentLike_def Let_def orEmpty_def arrayUnion_def arrayRemove_def
        split: option.splits)

lemma toggleCommentLike_seq_parity:
  assumes "\<not> fault (GetDoc COMMENTS_COLLECTION commentId)"
    and "\<not> fault (UpdateDoc COMMENTS_COLLECTION commentId)"
  shows "comments s commentId = Some c \<Longrightarrow>
         \<exists>c'. comments (toggleCommentLike_seq fault s commentId us) commentId = Some c'
           \<and> (uid \<in> set (orEmpty (likes c'))
                \<longleftrightarrow> (uid \<in> set (orEmpty (likes c))) \<noteq> odd (count_list us uid))"
proof (induction us arbitrary: s c)
  case Nil
  then show ?case by simp
next
  case (Cons v vs)
  from toggleCommentLike_member [OF Cons.prems assms, of v uid]
  obtain c1 where c1: "comments (snd (toggleCommentLike fault s commentId v)) commentId = Some c1"
    and m1: "uid \<in> set (orEmpty (likes c1))
                \<longleftrightarrow> (if v = uid then uid \<notin> set (orEmpty (likes c))
                     else uid \<in> set (orEmpty (likes c)))"
    by blast
  from Cons.IH [OF c1]
  obtain c2 where
    c2: "comments (toggleCommentLike_seq fault (snd (toggleCommentLike fault s commentId v))
            commentId vs) commentId = Some c2"
    and m2: "uid \<in> set (orEmpty (likes c2))
                \<longleftrightarrow> (uid \<in> set (orEmpty (likes c1))) \<noteq> odd (count_list vs uid)"
    by blast
  from c2 m1 m2 show ?case by auto
qed

text \<open>
  C4. A stored comment, a user who is not in its \<open>likes\<close> array, and a store that
  accepts the reads and writes of that comment: after any sequence of calls of
  \<open>toggleCommentLike\<close> on the comment, the user is in \<open>likes\<close> when the number of
  calls made by that user is odd, and not in it when that number is even. Calls by
  other users in between do not matter.
\<close>

theorem toggleCommentLike_odd_even:
  assumes "comments s commentId = Some c"
    and "uid \<notin> set (orEmpty (likes c))"
    and "\<not> fault (GetDoc COMMENTS_COLLECTION commentId)"
    and "\<not> fault (UpdateDoc COMMENTS_COLLECTION commentId)"
  shows "\<exists>c'. comments (toggleCommentLike_seq fault s commentId us) commentId = Some c'
           \<and> (odd (count_list us uid) \<longrightarrow> uid \<in> set (orEmpty (likes c')))
           \<and> (even (count_list us uid) \<longrightarrow> uid \<notin> set (orEmpty (likes c')))"
  using toggleCommentLike_seq_parity [OF assms(3) assms(4) assms(1), of us uid] assms(2)
  by auto

theorem toggleCommentLike_odd_even_witness:
  "(\<exists>c'. comments (toggleCommentLike_seq no_faults storeA ''c1'' [''bob'', ''carol'', ''bob'', ''bob''])
            ''c1'' = Some c'
        \<and> ''bob'' \<in> set (orEmpty (likes c')))
   \<and> (\<exists>c'. comments (toggleCommentLike_seq no_faults storeA ''c1'' [''bob'', ''bob'']) ''c1'' = Some c'
        \<and> ''bob'' \<notin> set (orEmpty (likes c')))"
proof -
  have a: "comments storeA ''c1'' = Some aliceComment"
    by (simp add: storeA_def)
  have b: "''bob'' \<notin> set (orEmpty (likes aliceComment))"
    by (simp add: aliceComment_def newCommentDoc_def orEmpty_def)
  have g: "\<not> no_faults (GetDoc COMMENTS_COLLECTION ''c1'')"
    and u: "\<not> no_faults (UpdateDoc COMMENTS_COLLECTION ''c1'')"
    by (simp_all add: no_faults_def)
  show ?thesis
    using toggleCommentLike_odd_even [OF a b g u, of "[''bob'', ''carol'', ''bob'', ''bob'']"]
          toggleCommentLike_odd_even [OF a b g u, of "[''bob'', ''bob'']"]
    by auto
qed

section \<open>editComment\<close>

lemma dropWhile_rev_split:
  "b = rev (dropWhile P (rev b)) @ rev (takeWhile P (rev b))"
proof -
  have "rev (takeWhile P (rev b) @ dropWhile P (rev b))
          = rev (dropWhile P (rev b)) @ rev (takeWhile P (rev b))"
    by (rule rev_append)
  then have "rev (rev b) = rev (dropWhile P (rev b)) @ rev (takeWhile P (rev b))"
    by (simp only: takeWhile_dropWhile_id)
  then show ?thesis by (simp only: rev_rev_ident)
qed

lemma trim_suffix_split:
  "dropWhile isWhiteSpace t
     = trim t @ rev (takeWhile isWhiteSpace (rev (dropWhile isWhiteSpace t)))"
  unfolding trim_def by (rule dropWhile_rev_split)

lemma trim_decompose:
  "\<exists>pre suf. t = pre @ trim t @ suf
     \<and> (\<forall>x\<in>set pre. isWhiteSpace x) \<and> (\<forall>x\<in>set suf. isWhiteSpace x)"
proof -
  let ?pre = "takeWhile isWhiteSpace t"
  let ?suf = "rev (takeWhile isWhiteSpace (rev (dropWhile isWhiteSpace t)))"
  have e1: "t = ?pre @ dropWhile isWhiteSpace t"
    by (rule takeWhile_dropWhile_id [symmetric])
  have e2: "?pre @ dropWhile isWhiteSpace t = ?pre @ trim t @ ?suf"
    using trim_suffix_split [of t] by (rule arg_cong [where f = "\<lambda>z. ?pre @ z"])
  from e1 e2 have "t = ?pre @ trim t @ ?suf"
    by (rule trans)
  moreover have "\<forall>x\<in>set ?pre. isWhiteSpace x"
    by (auto dest: set_takeWhileD)
  moreover have "\<forall>x\<in>set ?suf. isWhiteSpace x"
    by (auto dest: set_takeWhileD)
  ultimately show ?thesis by blast
qed

lemma trim_ends:
  assumes "trim t \<noteq> []"
  shows "\<not> isWhiteSpace (hd (trim t)) \<and> \<not> isWhiteSpace (last (trim t))"
proof -
  let ?b = "dropWhile isWhiteSpace t"
  let ?r = "dropWhile isWhiteSpace (rev ?b)"
  from assms have r: "?r \<noteq> []" by (simp only: trim_def rev_is_Nil_conv not_False_eq_True)
  then have l: "\<not> isWhiteSpace (hd ?r)" by (rule hd_dropWhile)
  have "last (trim t) = hd ?r"
    by (simp only: trim_def last_rev)
  with l have last_ok: "\<not> isWhiteSpace (last (trim t))" by simp
  have bne: "?b \<noteq> []"
  proof
    assume e: "?b = []"
    have "?r = []" by (simp only: e rev.simps dropWhile.simps)
    with r show False by contradiction
  qed
  then have hb: "\<not> isWhiteSpace (hd ?b)" by (rule hd_dropWhile)
  have "hd (trim t @ rev (takeWhile isWhiteSpace (rev ?b))) = hd (trim t)"
    using assms by (rule hd_append2)
  then have "hd ?b = hd (trim t)"
    using trim_suffix_split [of t] by simp
  with hb last_ok show ?thesis by simp
qed

lemma trim_all_whitespace:
  "\<forall>x\<in>set t. isWhiteSpace x \<Longrightarrow> trim t = []"
  by (auto simp: trim_def dest: set_dropWhileD)

text \<open>
  C9. When the comment exists, the requester is its author and the store accepts the
  read and the write, \<open>editComment\<close> succeeds and stores \<open>trim newText\<close> as the text,
  \<open>edited = true\<close> and the edit timestamp. \<open>trim newText\<close> is \<open>newText\<close> without a
  leading and a trailing run of white space, it neither starts nor ends with white
  space, and it is empty when \<open>newText\<close> is white space only.
\<close>

theorem editComment_stores_trimmed_text:
  assumes "comments s commentId = Some c" and "userId c = uid"
    and "\<not> fault (GetDoc COMMENTS_COLLECTION commentId)"
    and "\<not> fault (UpdateDoc COMMENTS_COLLECTION commentId)"
  shows "fst (editComment fault nowIso s commentId newText uid) = Inr ()
       \<and> comments (snd (editComment fault nowIso s commentId newText uid)) commentId
           = Some (c\<lparr>comment_text := trim newText, edited := Some True,
                     editedAt := Some nowIso\<rparr>)
       \<and> (\<exists>pre suf. newText = pre @ trim newText @ suf
             \<and> (\<forall>x\<in>set pre. isWhiteSpace x) \<and> (\<forall>x\<in>set suf. isWhiteSpace x))
       \<and> (trim newText \<noteq> [] \<longrightarrow>
             \<not> isWhiteSpace (hd (trim newText)) \<and> \<not> isWhiteSpace (last (trim newText)))
       \<and> ((\<forall>x\<in>set newText. isWhiteSpace x) \<longrightarrow> trim newText = [])"
proof -
  have "fst (editComment fault nowIso s commentId newText uid) = Inr ()"
    using assms by (simp add: editComment_def)
  moreover have "comments (snd (editComment fault nowIso s commentId newText uid)) commentId
           = Some (c\<lparr>comment_text := trim newText, edited := Some True,
                     editedAt := Some nowIso\<rparr>)"
    using assms by (simp add: editComment_def)
  ultimately show ?thesis
    using trim_decompose [of newText] trim_ends [of newText] trim_all_whitespace [of newText]
    by blast
qed

theorem editComment_stores_trimmed_text_witness:
  "comments (snd (editComment no_faults ''2025-01-15T12:00:00.000Z'' storeA ''c1''
                    [32, 104, 105, 32, 10] ''alice'')) ''c1''
     = Some (aliceComment\<lparr>comment_text := [104, 105], edited := Some True,
                           editedAt := Some ''2025-01-15T12:00:00.000Z''\<rparr>)
   \<and> trim [32, 9, 160] = []"
proof -
  have a: "comments storeA ''c1'' = Some aliceComment"
    by (simp add: storeA_def)
  have b: "userId aliceComment = ''alice''"
    by (simp add: aliceComment_def newCommentDoc_def aliceData_def)
  have g: "\<not> no_faults (GetDoc COMMENTS_COLLECTION ''c1'')"
    and u: "\<not> no_faults (UpdateDoc COMMENTS_COLLECTION ''c1'')"
    by (simp_all add: no_faults_def)
  have t1: "trim [32, 104, 105, 32, 10] = [104, 105]"
    by (simp add: trim_def isWhiteSpace_def)
  have t2: "\<forall>x\<in>set [32, 9, 160]. isWhiteSpace x"
    by (simp add: isWhiteSpace_def)
  show ?thesis
    using editComment_stores_trimmed_text
            [OF a b g u, of "''2025-01-15T12:00:00.000Z''" "[32, 104, 105, 32, 10]"]
          editComment_stores_trimmed_text
            [OF a b g u, of "''2025-01-15T12:00:00.000Z''" "[32, 9, 160]"]
          t1 t2
    by simp
qed

section \<open>Date arithmetic\<close>











section \<open>Event status\<close>










section \<open>declareWinners\<close>

lemma applyWrites_ranks:
  assumes "applyWrites (map (\<lambda>w. rankWrite (sid w) (rk w)) ws) s = Some s'"
  shows "events s' = events s
       \<and> (\<forall>k. k \<notin> sid ` set ws \<longrightarrow> eventSubmissions s' k = eventSubmissions s k)
       \<and> (\<forall>w\<in>set ws. \<exists>orig w'. eventSubmissions s (sid w) = Some orig \<and> w' \<in> set ws
              \<and> sid w' = sid w
              \<and> eventSubmissions s' (sid w) = Some (orig\<lparr>sub_rank := Some (rk w')\<rparr>))"
  using assms
proof (induction ws arbitrary: s)
  case Nil
  then show ?case by simp
next
  case (Cons w ws)
  from Cons.prems obtain orig where
    o: "eventSubmissions s (sid w) = Some orig"
    and r: "applyWrites (map (\<lambda>w. rankWrite (sid w) (rk w)) ws)
              (s\<lparr>eventSubmissions := (eventSubmissions s)(sid w \<mapsto> orig\<lparr>sub_rank := Some (rk w)\<rparr>)\<rparr>)
            = Some s'"
    by (auto simp: rankWrite_def split: option.splits)
  let ?s1 = "s\<lparr>eventSubmissions := (eventSubmissions s)(sid w \<mapsto> orig\<lparr>sub_rank := Some (rk w)\<rparr>)\<rparr>"
  note ih = Cons.IH [OF r]
  have ev: "events s' = events s" using ih by simp
  have other: "\<forall>k. k \<notin> sid ` set (w # ws) \<longrightarrow> eventSubmissions s' k = eventSubmissions s k"
    using ih by auto
  have each: "\<exists>orig' w'. eventSubmissions s (sid x) = Some orig' \<and> w' \<in> set (w # ws)
              \<and> sid w' = sid x
              \<and> eventSubmissions s' (sid x) = Some (orig'\<lparr>sub_rank := Some (rk w')\<rparr>)"
    if x: "x \<in> set (w # ws)" for x
  proof (cases "sid x \<in> sid ` set ws")
    case True
    then obtain y where y: "y \<in> set ws" "sid y = sid x" by auto
    from ih y obtain o1 w' where
      o1: "eventSubmissions ?s1 (sid y) = Some o1" "w' \<in> set ws" "sid w' = sid y"
          "eventSubmissions s' (sid y) = Some (o1\<lparr>sub_rank := Some (rk w')\<rparr>)"
      by blast
    show ?thesis
    proof (cases "sid x = sid w")
      case True
      with o1 y o show ?thesis
        by (intro exI [of _ orig] exI [of _ w']) auto
    next
      case False
      with o1 y show ?thesis
        by (intro exI [of _ o1] exI [of _ w']) auto
    qed
  next
    case False
    with x have xw: "sid x = sid w" by auto
    from False ih have "eventSubmissions s' (sid x) = eventSubmissions ?s1 (sid x)"
      by blast
    with xw o show ?thesis
      by (intro exI [of _ orig] exI [of _ w]) auto
  qed
  from ev other each show ?case by blast
qed

lemma declareWinners_cases:
  assumes "events s eventId = Some d"
  shows "declareWinners fault tsNow dateNow s eventId winners uid = (Inr None, s)
   \<or> (\<exists>s1 s'. s1 = s\<lparr>events := (events s)(eventId \<mapsto>
                      d\<lparr>leaderboard := Some (fetchLeaderboard fault s winners),
                        eventState := Some ResultsDeclared,
                        winnersAnnouncedAt := Some tsNow,
                        announcedBy := Some uid\<rparr>)\<rparr>
         \<and> applyWrites (map (\<lambda>w. rankWrite (w_submissionId w) (w_rank w)) winners) s1 = Some s'
         \<and> declareWinners fault tsNow dateNow s eventId winners uid
             = (Inr (Some ((eventOf eventId d)
                   \<lparr>leaderboard := Some (fetchLeaderboard fault s winners),
                     eventState := Some ResultsDeclared,
                     winnersAnnouncedAt := Some dateNow,
                     announcedBy := Some uid\<rparr>)), s'))"
  using assms
  by (auto simp: declareWinners_def commit_def Let_def split: option.splits)

text \<open>
  C2, as the code has it. For an event id with no event document, \<open>declareWinners\<close>
  resolves with \<open>null\<close> and leaves the store as it was. For an existing event it
  either resolves with \<open>null\<close> and leaves the store as it was, or resolves with the
  updated event and the whole batch is applied: the event document holds the
  leaderboard, the state \<open>ResultsDeclared\<close>, the announcement time and the announcer,
  every winner's submission document holds a rank given for that submission, and no
  other submission document has changed.
\<close>

theorem declareWinners_all_or_nothing:
  "(events s eventId = None \<longrightarrow>
      declareWinners fault tsNow dateNow s eventId winners uid = (Inr None, s))
   \<and> (\<forall>d. events s eventId = Some d \<longrightarrow>
        declareWinners fault tsNow dateNow s eventId winners uid = (Inr None, s)
        \<or> (\<exists>s'. declareWinners fault tsNow dateNow s eventId winners uid
                   = (Inr (Some ((eventOf eventId d)
                        \<lparr>leaderboard := Some (fetchLeaderboard fault s winners),
                          eventState := Some ResultsDeclared,
                          winnersAnnouncedAt := Some dateNow,
                          announcedBy := Some uid\<rparr>)), s')
              \<and> events s' = (events s)(eventId \<mapsto>
                      d\<lparr>leaderboard := Some (fetchLeaderboard fault s winners),
                        eventState := Some ResultsDeclared,
                        winnersAnnouncedAt := Some tsNow,
                        announcedBy := Some uid\<rparr>)
              \<and> (\<forall>w\<in>set winners. \<exists>orig w'.
                     eventSubmissions s (w_submissionId w) = Some orig
                     \<and> w' \<in> set winners \<and> w_submissionId w' = w_submissionId w
                     \<and> eventSubmissions s' (w_submissionId w)
                         = Some (orig\<lparr>sub_rank := Some (w_rank w')\<rparr>))
              \<and> (\<forall>k. k \<notin> w_submissionId ` set winners \<longrightarrow>
                     eventSubmissions s' k = eventSubmissions s k)))"
proof (intro conjI allI impI)
  assume "events s eventId = None"
  then show "declareWinners fault tsNow dateNow s eventId winners uid = (Inr None, s)"
    by (simp add: declareWinners_def)
next
  fix d
  assume d: "events s eventId = Some d"
  let ?s1 = "s\<lparr>events := (events s)(eventId \<mapsto>
                      d\<lparr>leaderboard := Some (fetchLeaderboard fault s winners),
                        eventState := Some ResultsDeclared,
                        winnersAnnouncedAt := Some tsNow,
                        announcedBy := Some uid\<rparr>)\<rparr>"
  from declareWinners_cases [OF d, of fault tsNow dateNow winners uid]
  show "declareWinners fault tsNow dateNow s eventId winners uid = (Inr None, s)
        \<or> (\<exists>s'. declareWinners fault tsNow dateNow s eventId winners uid
                   = (Inr (Some ((eventOf eventId d)
                        \<lparr>leaderboard := Some (fetchLeaderboard fault s winners),
                          eventState := Some ResultsDeclared,
                          winnersAnnouncedAt := Some dateNow,
                          announcedBy := Some uid\<rparr>)), s')
              \<and> events s' = (events s)(eventId \<mapsto>
                      d\<lparr>leaderboard := Some (fetchLeaderboard fault s winners),
                        eventState := Some ResultsDeclared,
                        winnersAnnouncedAt := Some tsNow,
                        announcedBy := Some uid\<rparr>)
              \<and> (\<forall>w\<in>set winners. \<exists>orig w'.
                     eventSubmissions s (w_submissionId w) = Some orig
                     \<and> w' \<in> set winners \<and> w_submissionId w' = w_submissionId w
                     \<and> eventSubmissions s' (w_submissionId w)
                         = Some (orig\<lparr>sub_rank := Some (w_rank w')\<rparr>))
              \<and> (\<forall>k. k \<notin> w_submissionId ` set winners \<longrightarrow>
                     eventSubmissions s' k = eventSubmissions s k))"
  proof (elim disjE exE conjE)
    assume "declareWinners fault tsNow dateNow s eventId winners uid = (Inr None, s)"
    then show ?thesis by (rule disjI1)
  next
    fix s1 s'
    assume s1: "s1 = ?s1"
      and ap: "applyWrites (map (\<lambda>w. rankWrite (w_submissionId w) (w_rank w)) winners) s1 = Some s'"
      and res: "declareWinners fault tsNow dateNow s eventId winners uid
             = (Inr (Some ((eventOf eventId d)
                   \<lparr>leaderboard := Some (fetchLeaderboard fault s winners),
                     eventState := Some ResultsDeclared,
                     winnersAnnouncedAt := Some dateNow,
                     announcedBy := Some uid\<rparr>)), s')"
    from applyWrites_ranks [OF ap] s1
    have a: "events s' = events ?s1"
      and b: "\<forall>k. k \<notin> w_submissionId ` set winners \<longrightarrow>
                 eventSubmissions s' k = eventSubmissions s k"
      and c: "\<forall>w\<in>set winners. \<exists>orig w'.
                 eventSubmissions s (w_submissionId w) = Some orig
                 \<and> w' \<in> set winners \<and> w_submissionId w' = w_submissionId w
                 \<and> eventSubmissions s' (w_submissionId w)
                     = Some (orig\<lparr>sub_rank := Some (w_rank w')\<rparr>)"
      by simp_all
    from a have a': "events s' = (events s)(eventId \<mapsto>
                      d\<lparr>leaderboard := Some (fetchLeaderboard fault s winners),
                        eventState := Some ResultsDeclared,
                        winnersAnnouncedAt := Some tsNow,
                        announcedBy := Some uid\<rparr>)"
      by simp
    from res a' b c show ?thesis by blast
  qed
qed

theorem declareWinners_all_or_nothing_witness:
  "declareWinners no_faults 5 6 storeE ''e9'' winnersAB ''admin'' = (Inr None, storeE)
   \<and> declareWinners no_faults 5 6 storeE ''e1'' winnersMissing ''admin'' = (Inr None, storeE)
   \<and> (\<exists>ev s'. declareWinners no_faults 5 6 storeE ''e1'' winnersAB ''admin'' = (Inr (Some ev), s')
        \<and> map_option eventState (events s' ''e1'') = Some (Some ResultsDeclared)
        \<and> map_option sub_rank (eventSubmissions s' ''s1'') = Some (Some 1)
        \<and> map_option sub_rank (eventSubmissions s' ''s2'') = Some (Some 2))"
proof -
  have e9: "events storeE ''e9'' = None" and e1: "events storeE ''e1'' = Some eveningEvent"
    by (simp_all add: storeE_def)
  have m: "declareWinners no_faults 5 6 storeE ''e1'' winnersMissing ''admin'' = (Inr None, storeE)"
    using e1
    by (simp add: declareWinners_def commit_def no_faults_def winnersMissing_def rankWrite_def
          Let_def EVENTS_def)
       (simp add: storeE_def)
  have ok: "fst (declareWinners no_faults 5 6 storeE ''e1'' winnersAB ''admin'') \<noteq> Inr None"
    using e1
    by (simp add: declareWinners_def commit_def no_faults_def winnersAB_def rankWrite_def
          Let_def EVENTS_def)
       (simp add: storeE_def)
  show ?thesis
    using declareWinners_all_or_nothing [of storeE "''e9''" no_faults 5 6 winnersAB "''admin''"]
          declareWinners_all_or_nothing [of storeE "''e1''" no_faults 5 6 winnersAB "''admin''"]
          e9 e1 m ok
    by (auto simp: winnersAB_def storeE_def)
qed


text \<open>
  An event id with no document: the call resolves with \<open>null\<close>, a normal return value,
  and not with an error.
\<close>

theorem declareWinners_counterexample:
  "declareWinners no_faults 5 6 storeE ''e9'' winnersAB ''admin'' = (Inr None, storeE)"
  by (simp add: declareWinners_def no_faults_def storeE_def)

section \<open>Remote failures\<close>

text \<open>
  C5, as the code has it. In \<open>CommentService\<close> a rejected remote call of the primary
  read or write (add, delete, edit, toggle like, query) rejects the operation with
  that error and the store is unchanged. In \<open>EventsService\<close> a rejected remote call
  is caught: \<open>getAllEvents\<close> resolves with the empty list, \<open>declareWinners\<close> and
  \<open>updateLeaderboard\<close> resolve with \<open>null\<close>, and the store is unchanged.
\<close>

theorem remote_failure_by_service:
  "(fault (AddDoc COMMENTS_COLLECTION) \<longrightarrow>
      addComment fault newId nowIso s cId cType commentData = (Inl RemoteFailure, s))
   \<and> (fault (GetDoc COMMENTS_COLLECTION commentId) \<longrightarrow>
      deleteComment fault s commentId cId cType uid = (Inl RemoteFailure, s)
      \<and> editComment fault nowIso s commentId newText uid = (Inl RemoteFailure, s)
      \<and> toggleCommentLike fault s commentId uid = (Inl RemoteFailure, s))
   \<and> (\<forall>c. \<not> fault (GetDoc COMMENTS_COLLECTION commentId)
          \<and> comments s commentId = Some c \<and> userId c = uid
          \<and> fault (DeleteDoc COMMENTS_COLLECTION commentId) \<longrightarrow>
      deleteComment fault s commentId cId cType uid = (Inl RemoteFailure, s))
   \<and> (\<forall>c. \<not> fault (GetDoc COMMENTS_COLLECTION commentId)
          \<and> comments s commentId = Some c \<and> userId c = uid
          \<and> fault (UpdateDoc COMMENTS_COLLECTION commentId) \<longrightarrow>
      editComment fault nowIso s commentId newText uid = (Inl RemoteFailure, s))
   \<and> (\<forall>c. \<not> fault (GetDoc COMMENTS_COLLECTION commentId)
          \<and> comments s commentId = Some c
          \<and> fault (UpdateDoc COMMENTS_COLLECTION commentId) \<longrightarrow>
      toggleCommentLike fault s commentId uid = (Inl RemoteFailure, s))
   \<and> (fault (GetDocs COMMENTS_COLLECTION) \<longrightarrow>
      getCommentsByContentId fault snapshot cId cType = Inl RemoteFailure)
   \<and> (fault (GetDocs EVENTS) \<longrightarrow> getAllEvents fault eventsSnapshot = Inr [])
   \<and> (fault (GetDoc EVENTS eventId) \<or> fault BatchCommit \<longrightarrow>
      declareWinners fault tsNow dateNow es eventId winners adminId = (Inr None, es)
      \<and> updateLeaderboard fault tsNow dateNow es eventId lb adminId = (Inr None, es))"
proof -
  have c1: "fault (AddDoc COMMENTS_COLLECTION) \<longrightarrow>
      addComment fault newId nowIso s cId cType commentData = (Inl RemoteFailure, s)"
    by (simp add: addComment_def)
  have c2: "fault (GetDoc COMMENTS_COLLECTION commentId) \<longrightarrow>
      deleteComment fault s commentId cId cType uid = (Inl RemoteFailure, s)
      \<and> editComment fault nowIso s commentId newText uid = (Inl RemoteFailure, s)
      \<and> toggleCommentLike fault s commentId uid = (Inl RemoteFailure, s)"
    by (simp add: deleteComment_def editComment_def toggleCommentLike_def)
  have c3: "\<forall>c. \<not> fault (GetDoc COMMENTS_COLLECTION commentId)
          \<and> comments s commentId = Some c \<and> userId c = uid
          \<and> fault (DeleteDoc COMMENTS_COLLECTION commentId) \<longrightarrow>
      deleteComment fault s commentId cId cType uid = (Inl RemoteFailure, s)"
    by (simp add: deleteComment_def)
  have c4: "\<forall>c. \<not> fault (GetDoc COMMENTS_COLLECTION commentId)
          \<and> comments s commentId = Some c \<and> userId c = uid
          \<and> fault (UpdateDoc COMMENTS_COLLECTION commentId) \<longrightarrow>
      editComment fault nowIso s commentId newText uid = (Inl RemoteFailure, s)"
    by (simp add: editComment_def)
  have c5: "\<forall>c. \<not> fault (GetDoc COMMENTS_COLLECTION commentId)
          \<and> comments s commentId = Some c
          \<and> fault (UpdateDoc COMMENTS_COLLECTION commentId) \<longrightarrow>
      toggleCommentLike fault s commentId uid = (Inl RemoteFailure, s)"
    by (simp add: toggleCommentLike_def Let_def)
  have c6: "fault (GetDocs COMMENTS_COLLECTION) \<longrightarrow>
      getCommentsByContentId fault snapshot cId cType = Inl RemoteFailure"
    by (simp add: getCommentsByContentId_def)
  have c7: "fault (GetDocs EVENTS) \<longrightarrow> getAllEvents fault eventsSnapshot = Inr []"
    by (simp add: getAllEvents_def)
  have c8: "fault (GetDoc EVENTS eventId) \<or> fault BatchCommit \<longrightarrow>
      declareWinners fault tsNow dateNow es eventId winners adminId = (Inr None, es)
      \<and> updateLeaderboard fault tsNow dateNow es eventId lb adminId = (Inr None, es)"
    by (auto simp: declareWinners_def updateLeaderboard_def commit_def Let_def
          split: option.splits)
  from c1 c2 c3 c4 c5 c6 c7 c8 show ?thesis by blast
qed

theorem remote_failure_by_service_witness:
  "addComment failEverything ''c2'' ''2025-01-15T11:00:00.000Z'' storeA ''p1'' Post aliceData
     = (Inl RemoteFailure, storeA)
   \<and> deleteComment failEverything storeA ''c1'' ''p1'' Post ''alice'' = (Inl RemoteFailure, storeA)
   \<and> editComment failEverything ''2025-01-15T11:00:00.000Z'' storeA ''c1'' [104] ''alice''
     = (Inl RemoteFailure, storeA)
   \<and> toggleCommentLike failEverything storeA ''c1'' ''alice'' = (Inl RemoteFailure, storeA)
   \<and> deleteComment (\<lambda>op. op = DeleteDoc ''comments'' ''c1'') storeA ''c1'' ''p1'' Post ''alice''
     = (Inl RemoteFailure, storeA)
   \<and> editComment (\<lambda>op. op = UpdateDoc ''comments'' ''c1'') ''2025-01-15T11:00:00.000Z''
        storeA ''c1'' [104] ''alice''
     = (Inl RemoteFailure, storeA)
   \<and> toggleCommentLike (\<lambda>op. op = UpdateDoc ''comments'' ''c1'') storeA ''c1'' ''alice''
     = (Inl RemoteFailure, storeA)
   \<and> getCommentsByContentId failEverything [(''c1'', aliceComment)] ''p1'' Post = Inl RemoteFailure
   \<and> getAllEvents failEverything [(''e1'', eveningEvent)] = Inr []
   \<and> declareWinners failEverything 5 6 storeE ''e1'' winnersAB ''admin'' = (Inr None, storeE)
   \<and> updateLeaderboard failEverything 5 6 storeE ''e1'' [] ''admin'' = (Inr None, storeE)"
proof -
  have a: "comments storeA ''c1'' = Some aliceComment" "userId aliceComment = ''alice''"
    by (simp_all add: storeA_def aliceComment_def newCommentDoc_def aliceData_def)
  show ?thesis
    using a
      remote_failure_by_service
        [where fault = failEverything and newId = "''c2''"
           and nowIso = "''2025-01-15T11:00:00.000Z''" and s = storeA and cId = "''p1''"
           and cType = Post and commentData = aliceData and commentId = "''c1''"
           and uid = "''alice''" and newText = "[104]"
           and snapshot = "[(''c1'', aliceComment)]"
           and eventsSnapshot = "[(''e1'', eveningEvent)]"
           and tsNow = 5 and dateNow = 6 and es = storeE and eventId = "''e1''"
           and winners = winnersAB and lb = "[]" and adminId = "''admin''"]
      remote_failure_by_service
        [where fault = "\<lambda>op. op = DeleteDoc ''comments'' ''c1''" and s = storeA
           and cId = "''p1''" and cType = Post and commentId = "''c1''" and uid = "''alice''"]
      remote_failure_by_service
        [where fault = "\<lambda>op. op = UpdateDoc ''comments'' ''c1''" and s = storeA
           and nowIso = "''2025-01-15T11:00:00.000Z''" and newText = "[104]"
           and commentId = "''c1''" and uid = "''alice''"]
    by (simp add: failEverything_def COMMENTS_COLLECTION_def)
qed

text \<open>
  The event query rejected, and the batch commit rejected for an existing event: the
  three event operations resolve with \<open>[]\<close> and \<open>null\<close>.
\<close>

theorem remote_failure_counterexample:
  "getAllEvents failQueries [(''e1'', eveningEvent)] = Inr []
   \<and> declareWinners failCommit 5 6 storeE ''e1'' winnersAB ''admin'' = (Inr None, storeE)
   \<and> updateLeaderboard failCommit 5 6 storeE ''e1'' [] ''admin'' = (Inr None, storeE)"
  by (simp add: getAllEvents_def declareWinners_def updateLeaderboard_def commit_def
        failQueries_def failCommit_def EVENTS_def Let_def storeE_def)

end
